theory Spec2Isabelle
  imports Main
begin

section \<open>Strings of the source language\<close>

text \<open>
  A Python \<open>str\<close> is a sequence of Unicode code points, and \<open>len\<close>, slicing and
  \<open>startswith\<close> count code points (the first three characters of a weekday name are
  three letters, whatever their UTF-8 length). A string is therefore a list of code points, each a natural number.
  \<open>u\<close> turns an ASCII literal into such a list; letters outside ASCII are written as
  their code points.
\<close>

type_synonym ustring = "nat list"

definition u :: "string \<Rightarrow> ustring" where
  "u s = map of_char s"

text \<open>
  \<open>str.isspace\<close>, \<open>str.strip()\<close> and the pattern \<open>\s\<close> of \<open>re\<close> on a \<open>str\<close> share one
  table of white space (CPython's \<open>Py_UNICODE_ISSPACE\<close>): U+0009..U+000D,
  U+001C..U+0020, U+0085, U+00A0, U+1680, U+2000..U+200A, U+2028, U+2029, U+202F,
  U+205F, U+3000.
\<close>

definition is_space :: "nat \<Rightarrow> bool" where
  "is_space c =
     ((9 \<le> c \<and> c \<le> 13) \<or> (28 \<le> c \<and> c \<le> 32) \<or> c = 133 \<or> c = 160 \<or> c = 5760
      \<or> (8192 \<le> c \<and> c \<le> 8202) \<or> c = 8232 \<or> c = 8233 \<or> c = 8239 \<or> c = 8287
      \<or> c = 12288)"

text \<open>
  The pattern \<open>\d\<close> on a \<open>str\<close> matches every code point of category Nd, and \<open>int\<close>
  reads each of them as its decimal value. Category Nd (Unicode 14.0.0) is 66 runs of
  ten code points, each run the digits 0 to 9 in order; \<open>digit_starts\<close> lists the code
  point of the zero of every run, ASCII first.
\<close>

definition digit_starts :: "nat list" where
  "digit_starts =
     [48, 1632, 1776, 1984, 2406, 2534, 2662, 2790, 2918, 3046, 3174, 3302, 3430, 3558,
      3664, 3792, 3872, 4160, 4240, 6112, 6160, 6470, 6608, 6784, 6800, 6992, 7088, 7232,
      7248, 42528, 43216, 43264, 43472, 43504, 43600, 44016, 65296, 66720, 68912, 69734,
      69872, 69942, 70096, 70384, 70736, 70864, 71248, 71360, 71472, 71904, 72016, 72784,
      73040, 73120, 92768, 92864, 93008, 120782, 120792, 120802, 120812, 120822, 123200,
      123632, 125264, 130032]"

fun digit_in :: "nat list \<Rightarrow> nat \<Rightarrow> nat option" where
  "digit_in [] c = None"
| "digit_in (s # ss) c = (if s \<le> c \<and> c < s + 10 then Some (c - s) else digit_in ss c)"

definition digit_value :: "nat \<Rightarrow> nat option" where
  "digit_value c = digit_in digit_starts c"

definition is_digit :: "nat \<Rightarrow> bool" where
  "is_digit c = (digit_value c \<noteq> None)"

text \<open>\<open>int(s)\<close> on a string of decimal digits.\<close>

definition int_of_digits :: "ustring \<Rightarrow> nat" where
  "int_of_digits s = foldl (\<lambda>a c. 10 * a + (case digit_value c of Some d \<Rightarrow> d | None \<Rightarrow> 0)) 0 s"

text \<open>\<open>str(n)\<close> and \<open>f"{n}"\<close> for a non-negative integer: its decimal digits in ASCII.\<close>

fun str_nat :: "nat \<Rightarrow> ustring" where
  "str_nat n = (if n < 10 then [48 + n] else str_nat (n div 10) @ [48 + n mod 10])"

declare str_nat.simps [simp del]

text \<open>\<open>f"{n:02d}"\<close>: at least two digits, padded with zeros on the left.\<close>

definition fmt02 :: "nat \<Rightarrow> ustring" where
  "fmt02 n = (if n < 10 then 48 # str_nat n else str_nat n)"

text \<open>\<open>s.strip()\<close>, \<open>s.replace(a, b)\<close> for a one-character \<open>a\<close>, \<open>s.startswith(p)\<close>.\<close>

definition strip :: "ustring \<Rightarrow> ustring" where
  "strip s = rev (dropWhile is_space (rev (dropWhile is_space s)))"

definition replace_chr :: "nat \<Rightarrow> ustring \<Rightarrow> ustring \<Rightarrow> ustring" where
  "replace_chr a b s = concat (map (\<lambda>c. if c = a then b else [c]) s)"

fun startswith :: "ustring \<Rightarrow> ustring \<Rightarrow> bool" where
  "startswith s [] = True"
| "startswith [] (p # ps) = False"
| "startswith (c # cs) (p # ps) = (c = p \<and> startswith cs ps)"

text \<open>
  \<open>str.lower()\<close> and the title-casing of one code point that \<open>str.capitalize()\<close>
  applies to the first character (Python 3.8 and later). The two tables are those of
  Python on U+0000..U+017F (ASCII, Latin-1, Latin Extended-A, which holds the Polish
  alphabet); code points beyond U+017F are left as they are.
\<close>

definition lower_cp :: "nat \<Rightarrow> ustring" where
  "lower_cp c =
     (if 65 \<le> c \<and> c \<le> 90 then [c + 32]
      else if 192 \<le> c \<and> c \<le> 222 \<and> c \<noteq> 215 then [c + 32]
      else if c = 304 then [105, 775]
      else if c = 376 then [255]
      else if ((256 \<le> c \<and> c \<le> 311) \<or> (330 \<le> c \<and> c \<le> 375)) \<and> even c then [c + 1]
      else if ((313 \<le> c \<and> c \<le> 328) \<or> (377 \<le> c \<and> c \<le> 382)) \<and> odd c then [c + 1]
      else [c])"

definition title_cp :: "nat \<Rightarrow> ustring" where
  "title_cp c =
     (if 97 \<le> c \<and> c \<le> 122 then [c - 32]
      else if c = 181 then [924]
      else if c = 223 then [83, 115]
      else if 224 \<le> c \<and> c \<le> 254 \<and> c \<noteq> 247 then [c - 32]
      else if c = 255 then [376]
      else if c = 305 then [73]
      else if c = 329 then [700, 78]
      else if c = 383 then [83]
      else if ((257 \<le> c \<and> c \<le> 311) \<or> (331 \<le> c \<and> c \<le> 375)) \<and> odd c then [c - 1]
      else if ((314 \<le> c \<and> c \<le> 328) \<or> (378 \<le> c \<and> c \<le> 382)) \<and> even c then [c - 1]
      else [c])"

definition lower :: "ustring \<Rightarrow> ustring" where
  "lower s = concat (map lower_cp s)"

definition capitalize :: "ustring \<Rightarrow> ustring" where
  "capitalize s = (case s of [] \<Rightarrow> [] | c # cs \<Rightarrow> title_cp c @ lower cs)"

section \<open>escape_sql\<close>

text \<open>
  \<open>re.sub(r"\s+", " ", s)\<close>: every maximal run of white space becomes one space.
\<close>

function collapse_ws :: "ustring \<Rightarrow> ustring" where
  "collapse_ws [] = []"
| "collapse_ws (c # cs) =
     (if is_space c then 32 # collapse_ws (dropWhile is_space cs) else c # collapse_ws cs)"
  by pat_completeness auto
termination
  by (relation "measure length") (auto simp: length_dropWhile_le less_Suc_eq_le)

text \<open>
  The argument is \<open>None\<close> or a string (\<open>str(s)\<close> is then \<open>s\<close> itself):
  \<^verbatim>\<open>
  def escape_sql(s):
      if s is None:
          return ""
      s = str(s).replace("\n", " ").replace("\r", " ").strip()
      s = re.sub(r"\s+", " ", s)
      return s.replace("'", "''")
  \<close>
\<close>

definition escape_sql :: "ustring option \<Rightarrow> ustring" where
  "escape_sql a =
     (case a of
        None \<Rightarrow> []
      | Some s \<Rightarrow>
          replace_chr 39 [39, 39]
            (collapse_ws (strip (replace_chr 13 [32] (replace_chr 10 [32] s)))))"

section \<open>find_weekday_columns\<close>

text \<open>
  \<^verbatim>\<open>WEEKDAYS = ["poniedzialek", "wtorek", "sroda", "czwartek", "piatek"]\<close> in the
  source's spelling, which has U+0142 in the first name, U+015B at the head of the third
  and U+0105 in the last.
\<close>

definition WEEKDAYS :: "ustring list" where
  "WEEKDAYS =
     [u ''poniedzia'' @ [322] @ u ''ek'', u ''wtorek'', [347] @ u ''roda'', u ''czwartek'',
      u ''pi'' @ [261] @ u ''tek'']"

text \<open>
  A Python \<open>dict\<close> keeps its keys in insertion order: an association list, where
  \<open>m[k] = v\<close> replaces the value of a key already there and appends a new key.
\<close>

fun dict_set :: "(nat \<times> 'v) list \<Rightarrow> nat \<Rightarrow> 'v \<Rightarrow> (nat \<times> 'v) list" where
  "dict_set [] k v = [(k, v)]"
| "dict_set ((k', v') # m) k v = (if k' = k then (k, v) # m else (k', v') # dict_set m k v)"

text \<open>
  The inner loop, over the weekdays, on the cleaned cell:
  \<^verbatim>\<open>
  for wd in WEEKDAYS:
      if wd == cell_clean or cell_clean.startswith(wd[:3]):
          mapping[idx] = wd.capitalize()
          break
  \<close>
  It yields the value to store, or nothing when no weekday matches.
\<close>

fun match_weekday :: "ustring list \<Rightarrow> ustring \<Rightarrow> ustring option" where
  "match_weekday [] cell_clean = None"
| "match_weekday (wd # wds) cell_clean =
     (if wd = cell_clean \<or> startswith cell_clean (take 3 wd) then Some (capitalize wd)
      else match_weekday wds cell_clean)"

text \<open>
  The outer loop, \<open>for idx, cell in enumerate(row_values)\<close>, with the index and the
  mapping built so far.
\<close>

fun weekday_loop :: "nat \<Rightarrow> ustring list \<Rightarrow> (nat \<times> ustring) list \<Rightarrow> (nat \<times> ustring) list" where
  "weekday_loop idx [] mapping = mapping"
| "weekday_loop idx (cell # cells) mapping =
     (if cell = [] then weekday_loop (Suc idx) cells mapping
      else (case match_weekday WEEKDAYS (lower (strip cell)) of
              None \<Rightarrow> weekday_loop (Suc idx) cells mapping
            | Some w \<Rightarrow> weekday_loop (Suc idx) cells (dict_set mapping idx w)))"

definition find_weekday_columns :: "ustring list \<Rightarrow> (nat \<times> ustring) list" where
  "find_weekday_columns row_values =
     (let mapping = weekday_loop 0 row_values []
      in if length mapping \<ge> 3 then mapping else [])"

section \<open>The patterns\<close>

text \<open>
  The three patterns are matched by backtracking, greedy quantifiers first. In each of
  them the character classes that meet are disjoint (white space, the dashes, digits,
  the colon, the full stop, and \<open>[^\s\<dots>-]\<close>, which is none of white space and the
  dashes), so the greedy choice is the only one that can succeed and a matcher is one
  pass from left to right.

  \<open>\d{1,2}\<close> followed by the literal character \<open>x\<close> (a colon or a full stop): two digits
  and \<open>x\<close>, else one digit and \<open>x\<close>. The result is the digits and the text after \<open>x\<close>.
\<close>

fun digits12 :: "nat \<Rightarrow> ustring \<Rightarrow> (ustring \<times> ustring) option" where
  "digits12 x (a # b # c # r) =
     (if is_digit a \<and> is_digit b \<and> c = x then Some ([a, b], r)
      else if is_digit a \<and> b = x then Some ([a], c # r)
      else None)"
| "digits12 x [a, b] = (if is_digit a \<and> b = x then Some ([a], []) else None)"
| "digits12 x [a] = None"
| "digits12 x [] = None"

text \<open>The hyphen U+002D and the en dash U+2013, the class \<open>[-\<dots>]\<close> of both patterns.\<close>

definition is_dash :: "nat \<Rightarrow> bool" where
  "is_dash c = (c = 45 \<or> c = 8211)"

text \<open>
  \<^verbatim>\<open>HEADER_CLASS_RE = re.compile(r"^\s*([^\s\<dots>-]+)\s*[-\<dots>]\s*\d{1,2}\.\d{1,2}\.\d{2,4}")\<close>
  (\<open>\<dots>\<close> stands for the en dash), used as \<open>HEADER_CLASS_RE.match(cell)\<close>; the result is
  \<open>m.group(1)\<close>, or \<open>None\<close> when the cell does not match.
\<close>

definition header_class_match :: "ustring \<Rightarrow> ustring option" where
  "header_class_match cell =
     (let r1 = dropWhile is_space cell;
          g = takeWhile (\<lambda>c. \<not> is_space c \<and> \<not> is_dash c) r1;
          r2 = dropWhile is_space (dropWhile (\<lambda>c. \<not> is_space c \<and> \<not> is_dash c) r1)
      in if g = [] then None
         else (case r2 of
                 [] \<Rightarrow> None
               | d # r3 \<Rightarrow>
                   if \<not> is_dash d then None
                   else (case digits12 46 (dropWhile is_space r3) of
                           None \<Rightarrow> None
                         | Some (day, r4) \<Rightarrow>
                             (case digits12 46 r4 of
                                None \<Rightarrow> None
                              | Some (month, r5) \<Rightarrow>
                                  (case r5 of
                                     a # b # r6 \<Rightarrow>
                                       if is_digit a \<and> is_digit b then Some g else None
                                   | _ \<Rightarrow> None)))))"

text \<open>
  \<^verbatim>\<open>TIME_RE = re.compile(r"(\d{1,2}:\d{2})\s*[-\<dots>]\s*(\d{1,2}:\d{2})")\<close>, used as
  \<open>TIME_RE.search(cell)\<close>. \<open>time_at\<close> is the attempt at the head of the text, \<open>time_search\<close>
  tries every position from the left; the result is \<open>(group(0), group(1), group(2))\<close>.
\<close>

definition time_at :: "ustring \<Rightarrow> (ustring \<times> ustring \<times> ustring) option" where
  "time_at s =
     (case digits12 58 s of
        None \<Rightarrow> None
      | Some (h1, r1) \<Rightarrow>
          (case r1 of
             a # b # r2 \<Rightarrow>
               if is_digit a \<and> is_digit b then
                 (case dropWhile is_space r2 of
                    [] \<Rightarrow> None
                  | d # r3 \<Rightarrow>
                      if \<not> is_dash d then None
                      else (case digits12 58 (dropWhile is_space r3) of
                              None \<Rightarrow> None
                            | Some (h2, r4) \<Rightarrow>
                                (case r4 of
                                   a' # b' # r5 \<Rightarrow>
                                     if is_digit a' \<and> is_digit b' then
                                       Some (h1 @ [58, a, b] @ takeWhile is_space r2 @ [d]
                                               @ takeWhile is_space r3 @ h2 @ [58, a', b'],
                                             h1 @ [58, a, b], h2 @ [58, a', b'])
                                     else None
                                 | _ \<Rightarrow> None)))
               else None
           | _ \<Rightarrow> None))"

fun time_search :: "ustring \<Rightarrow> (ustring \<times> ustring \<times> ustring) option" where
  "time_search [] = time_at []"
| "time_search (c # cs) =
     (case time_at (c # cs) of Some m \<Rightarrow> Some m | None \<Rightarrow> time_search cs)"

section \<open>normalize_time\<close>

text \<open>
  \<^verbatim>\<open>
  def normalize_time(t: str):
      if not t:
          return None
      m = re.match(r"^(\d{1,2}):(\d{2})$", t.strip())
      if not m:
          return None
      return f"{int(m.group(1)):02d}:{m.group(2)}:00"
  \<close>
  Without the flag \<open>MULTILINE\<close>, \<open>$\<close> matches at the end of the text and before a line
  feed that ends the text. \<open>hmm_match\<close> is the match of the pattern, with the result
  \<open>(group(1), group(2))\<close>.
\<close>

definition hmm_match :: "ustring \<Rightarrow> (ustring \<times> ustring) option" where
  "hmm_match s =
     (case digits12 58 s of
        None \<Rightarrow> None
      | Some (h, r) \<Rightarrow>
          (case r of
             [a, b] \<Rightarrow> if is_digit a \<and> is_digit b then Some (h, [a, b]) else None
           | [a, b, c] \<Rightarrow>
               if is_digit a \<and> is_digit b \<and> c = 10 then Some (h, [a, b]) else None
           | _ \<Rightarrow> None))"

definition normalize_time :: "ustring \<Rightarrow> ustring option" where
  "normalize_time t =
     (if t = [] then None
      else (case hmm_match (strip t) of
              None \<Rightarrow> None
            | Some (g1, g2) \<Rightarrow> Some (fmt02 (int_of_digits g1) @ [58] @ g2 @ u '':00'')))"

section \<open>parse_excel_to_plan\<close>

text \<open>
  What \<open>pandas\<close> hands to the parser: \<open>pd.ExcelFile(path)\<close> raises, with a message, or
  gives the sheets by name; \<open>xls.parse(sheetname, header=None, dtype=object)\<close> raises,
  with a message, or gives the grid, whose row \<open>i\<close> is read as
  \<open>df.iloc[i].fillna("").astype(str).tolist()\<close>, a list of strings.
\<close>

datatype sheet_read = ReadError ustring | Grid "ustring list list"

datatype workbook = OpenError ustring | Opened "(ustring \<times> sheet_read) list"

text \<open>One element of \<open>plan\<close>, a dictionary with these eight keys.\<close>

record entry =
  klasa :: ustring
  dzien :: ustring
  start :: ustring
  end' :: ustring
  przedmiot :: ustring
  sheet :: ustring
  row :: nat
  col :: nat

text \<open>
  The variables of the function: \<open>plan\<close> and \<open>errors\<close> live through the whole call,
  \<open>current_class\<close> and \<open>weekday_cols\<close> are set anew for every sheet, and \<open>log\<close> is the
  sequence of messages passed to the callback \<open>log_append\<close>.
\<close>

record pstate =
  current_class :: "ustring option"
  weekday_cols :: "(nat \<times> ustring) list"
  plan :: "entry list"
  errors :: "ustring list"
  log :: "ustring list"

text \<open>
  The two scans of a row for the first cell that matches a pattern:
  \<open>for col_idx, cell in enumerate(row): m = \<dots>(cell); if m: \<dots> break\<close>.
\<close>

fun first_match :: "(ustring \<Rightarrow> 'a option) \<Rightarrow> ustring list \<Rightarrow> 'a option" where
  "first_match f [] = None"
| "first_match f (cell # cells) =
     (case f cell of Some m \<Rightarrow> Some m | None \<Rightarrow> first_match f cells)"

text \<open>
  \<open>str(weekday_cols)\<close> in the log message. The values are capitalised weekday names,
  which \<open>repr\<close> prints between single quotes as they are.
\<close>

fun repr_items :: "(nat \<times> ustring) list \<Rightarrow> ustring" where
  "repr_items [] = []"
| "repr_items [(k, v)] = str_nat k @ u '': '' @ [39] @ v @ [39]"
| "repr_items ((k, v) # kv # m) =
     str_nat k @ u '': '' @ [39] @ v @ [39] @ u '', '' @ repr_items (kv # m)"

definition repr_dict :: "(nat \<times> ustring) list \<Rightarrow> ustring" where
  "repr_dict m = u ''{'' @ repr_items m @ u ''}''"

text \<open>Truth of an optional string: \<open>None\<close> and \<open>""\<close> are false.\<close>

fun truthy :: "ustring option \<Rightarrow> bool" where
  "truthy None = False"
| "truthy (Some s) = (s \<noteq> [])"

text \<open>
  The loop that adds the subjects of a time row:
  \<^verbatim>\<open>
  for col_idx, weekday in weekday_cols.items():
      if col_idx >= len(row):
          continue
      subj = row[col_idx].strip()
      if subj:
          plan.append({"klasa": current_class, "dzien": weekday, "start": start,
                       "end": end, "przedmiot": escape_sql(subj), "sheet": sheetname,
                       "row": i+1, "col": col_idx+1})
  \<close>
\<close>

fun add_subjects ::
  "ustring \<Rightarrow> ustring \<Rightarrow> ustring \<Rightarrow> ustring \<Rightarrow> nat \<Rightarrow> ustring list \<Rightarrow> (nat \<times> ustring) list
    \<Rightarrow> entry list \<Rightarrow> entry list" where
  "add_subjects cls st en sheetname i cells [] pl = pl"
| "add_subjects cls st en sheetname i cells ((col_idx, weekday) # items) pl =
     (if col_idx \<ge> length cells then add_subjects cls st en sheetname i cells items pl
      else (let subj = strip (cells ! col_idx)
            in if subj \<noteq> [] then
                 add_subjects cls st en sheetname i cells items
                   (pl @ [\<lparr>klasa = cls, dzien = weekday, start = st, end' = en,
                           przedmiot = escape_sql (Some subj), sheet = sheetname,
                           row = i + 1, col = col_idx + 1\<rparr>])
               else add_subjects cls st en sheetname i cells items pl))"

text \<open>
  Step 1 of the loop body, the class header: the first matching cell sets the class,
  logs it and empties the weekday columns.
\<close>

definition header_step :: "ustring \<Rightarrow> nat \<Rightarrow> ustring list \<Rightarrow> pstate \<Rightarrow> pstate" where
  "header_step sheetname i cells s =
     (case first_match header_class_match cells of
        None \<Rightarrow> s
      | Some cls \<Rightarrow>
          s\<lparr>current_class := Some cls,
            log := log s @ [u ''['' @ sheetname @ u ''] Znaleziono klas'' @ [281] @ u '' ''
                            @ [39] @ cls @ [39] @ u '' w wierszu '' @ str_nat (i + 1)],
            weekday_cols := []\<rparr>)"

text \<open>
  Step 3, the time row, reached when step 2 did not take the row.
\<close>

definition time_step :: "ustring \<Rightarrow> nat \<Rightarrow> ustring list \<Rightarrow> pstate \<Rightarrow> pstate" where
  "time_step sheetname i cells s =
     (case first_match time_search cells of
        None \<Rightarrow> s
      | Some (g0, g1, g2) \<Rightarrow>
          (let s1 = (if \<not> truthy (current_class s)
                     then s\<lparr>current_class := Some (u ''UNKNOWN''),
                            errors := errors s @
                              [u ''['' @ sheetname @ u ''] Wiersz '' @ str_nat (i + 1)
                               @ u '': godziny znalezione, ale brak klasy '' @ [8594]
                               @ u '' ustawiono UNKNOWN'']\<rparr>
                     else s)
           in if weekday_cols s1 = [] then
                s1\<lparr>errors := errors s1 @
                     [u ''['' @ sheetname @ u ''] Wiersz '' @ str_nat (i + 1)
                      @ u '': godziny znalezione, ale brak dni tygodnia'']\<rparr>
              else if \<not> truthy (normalize_time g1) \<or> \<not> truthy (normalize_time g2) then
                s1\<lparr>errors := errors s1 @
                     [u ''['' @ sheetname @ u ''] Wiersz '' @ str_nat (i + 1)
                      @ u '': z'' @ [322] @ u ''y format godziny '' @ [39] @ g0 @ [39]]\<rparr>
              else
                (case (current_class s1, normalize_time g1, normalize_time g2) of
                   (Some cls, Some st, Some en) \<Rightarrow>
                     s1\<lparr>plan := add_subjects cls st en sheetname i cells (weekday_cols s1)
                                  (plan s1)\<rparr>
                 | _ \<Rightarrow> s1)))"

text \<open>
  The body of \<open>for i in range(len(df))\<close>: step 1, then step 2 (a weekday row is looked
  for only while no weekday columns are known, and a row taken as one is done:
  \<open>continue\<close>), then step 3.
\<close>

definition process_row :: "ustring \<Rightarrow> nat \<Rightarrow> ustring list \<Rightarrow> pstate \<Rightarrow> pstate" where
  "process_row sheetname i cells s =
     (let s1 = header_step sheetname i cells s
      in if weekday_cols s1 = [] \<and> find_weekday_columns cells \<noteq> [] then
           s1\<lparr>weekday_cols := find_weekday_columns cells,
              log := log s1 @ [u ''['' @ sheetname @ u ''] Dni tygodnia w wierszu ''
                               @ str_nat (i + 1) @ u '': ''
                               @ repr_dict (find_weekday_columns cells)]\<rparr>
         else time_step sheetname i cells s1)"

fun scan_rows :: "ustring \<Rightarrow> nat \<Rightarrow> ustring list list \<Rightarrow> pstate \<Rightarrow> pstate" where
  "scan_rows sheetname i [] s = s"
| "scan_rows sheetname i (cells # rows) s =
     scan_rows sheetname (Suc i) rows (process_row sheetname i cells s)"

text \<open>
  The loop over the sheets. A sheet that cannot be read leaves a message in \<open>errors\<close>
  and is passed over; a sheet that can starts with no class and no weekday columns.
\<close>

fun scan_sheets :: "(ustring \<times> sheet_read) list \<Rightarrow> pstate \<Rightarrow> pstate" where
  "scan_sheets [] s = s"
| "scan_sheets ((sheetname, ReadError e) # sheets) s =
     scan_sheets sheets
       (s\<lparr>errors := errors s @
            [u ''Nie mo'' @ [380] @ u ''na przeczyta'' @ [263] @ u '' arkusza '' @ [39]
             @ sheetname @ [39] @ u '': '' @ e]\<rparr>)"
| "scan_sheets ((sheetname, Grid rows) # sheets) s =
     scan_sheets sheets
       (scan_rows sheetname 0 rows (s\<lparr>current_class := None, weekday_cols := []\<rparr>))"

text \<open>
  The function returns \<open>(plan, errors)\<close>; the third component is what it passed to
  \<open>log_append\<close>, in order. A file that cannot be opened is caught
  (\<open>except Exception as e\<close>) and returned as one message in \<open>errors\<close>.
\<close>

definition parse_excel_to_plan :: "workbook \<Rightarrow> entry list \<times> ustring list \<times> ustring list" where
  "parse_excel_to_plan wb =
     (case wb of
        OpenError e \<Rightarrow>
          ([], [u ''B'' @ [322, 261] @ u ''d otwarcia pliku: '' @ e], [])
      | Opened sheets \<Rightarrow>
          (let s = scan_sheets sheets
                     \<lparr>current_class = None, weekday_cols = [], plan = [], errors = [],
                      log = []\<rparr>
           in (plan s, errors s, log s)))"

section \<open>write_sql\<close>

text \<open>
  The text written to the file, one element for every call of \<open>f.write\<close>, in order.
  \<open>now\<close> is \<open>datetime.now().isoformat()\<close>.
\<close>

definition sql_header :: "ustring \<Rightarrow> ustring list" where
  "sql_header now =
     [u ''-- Wygenerowano: '' @ now @ [10],
      u ''CREATE TABLE IF NOT EXISTS plan ('' @ [10],
      u ''  id INT AUTO_INCREMENT PRIMARY KEY,'' @ [10],
      u ''  klasa VARCHAR(50),'' @ [10],
      u ''  dzien VARCHAR(20),'' @ [10],
      u ''  godzina_start TIME,'' @ [10],
      u ''  godzina_koniec TIME,'' @ [10],
      u ''  przedmiot VARCHAR(500),'' @ [10],
      u ''  sheet VARCHAR(100),'' @ [10],
      u ''  sheet_row INT,'' @ [10],
      u ''  sheet_col INT'' @ [10],
      u '');'' @ [10, 10]]"

definition insert_stmt :: "nat \<Rightarrow> entry \<Rightarrow> ustring" where
  "insert_stmt i r =
     u ''INSERT INTO plan (id, klasa, dzien, godzina_start, godzina_koniec, przedmiot, sheet, sheet_row, sheet_col) ''
     @ u ''VALUES ('' @ str_nat i @ u '', '' @ [39] @ escape_sql (Some (klasa r)) @ [39]
     @ u '', '' @ [39] @ escape_sql (Some (dzien r)) @ [39]
     @ u '', '' @ [39] @ start r @ [39] @ u '', '' @ [39] @ end' r @ [39] @ u '', ''
     @ [39] @ przedmiot r @ [39] @ u '', '' @ [39] @ escape_sql (Some (sheet r)) @ [39]
     @ u '', '' @ str_nat (row r) @ u '', '' @ str_nat (col r) @ u '');'' @ [10]"

text \<open>\<open>for i, r in enumerate(plan, start=1): f.write(\<dots>)\<close>, from the counter \<open>i\<close> on.\<close>

fun write_rows :: "nat \<Rightarrow> entry list \<Rightarrow> ustring list" where
  "write_rows i [] = []"
| "write_rows i (r # rs) = insert_stmt i r # write_rows (Suc i) rs"

definition write_sql :: "ustring \<Rightarrow> entry list \<Rightarrow> ustring list" where
  "write_sql now pl = sql_header now @ write_rows 1 pl"

section \<open>Notions used to state the properties\<close>

text \<open>A run of two or more white-space characters somewhere in the text.\<close>

fun ws_run :: "ustring \<Rightarrow> bool" where
  "ws_run (a # b # r) = ((is_space a \<and> is_space b) \<or> ws_run (b # r))"
| "ws_run [a] = False"
| "ws_run [] = False"

text \<open>
  Every single quote (U+0027) of the text stands in a pair of two adjacent quotes, the
  pairs read from the left.
\<close>

fun quotes_doubled :: "ustring \<Rightarrow> bool" where
  "quotes_doubled [] = True"
| "quotes_doubled (c # cs) =
     (if c = 39 then (case cs of [] \<Rightarrow> False | d # r \<Rightarrow> d = 39 \<and> quotes_doubled r)
      else quotes_doubled cs)"

text \<open>
  The rows of the end-to-end scenario: the class header, the weekday row in English and
  in the names of the code (the fourth cell is U+015B \<open>ro\<close>, the sixth \<open>pi\<close> U+0105), and
  the time row.
\<close>

definition header_row :: "ustring list" where
  "header_row = [u ''1AT - 1.09.2025'']"

definition weekday_row_english :: "ustring list" where
  "weekday_row_english = [[], u ''Mon'', u ''Tue'', u ''Wed'', u ''Thu'', u ''Fri'']"

definition weekday_row_polish :: "ustring list" where
  "weekday_row_polish = [[], u ''pon'', u ''wto'', [347, 114, 111], u ''czw'', [112, 105, 261]]"

definition time_row :: "ustring list" where
  "time_row = [u ''7:10-7:55'', u ''Math'', u ''Physics'', [], u ''Chemistry'', []]"

text \<open>
  The state in which \<open>parse_excel_to_plan\<close> starts, the state after the class header of
  the scenario, and the entry the scenario expects for a weekday, a subject and a
  column.
\<close>

definition first_state :: pstate where
  "first_state = \<lparr>current_class = None, weekday_cols = [], plan = [], errors = [], log = []\<rparr>"

definition after_header :: "ustring \<Rightarrow> pstate" where
  "after_header sheetname =
     \<lparr>current_class = Some (u ''1AT''), weekday_cols = [], plan = [], errors = [],
      log = [u ''['' @ sheetname @ u ''] Znaleziono klas'' @ [281] @ u '' '' @ [39] @ u ''1AT''
             @ [39] @ u '' w wierszu 1'']\<rparr>"

definition lesson :: "ustring \<Rightarrow> ustring \<Rightarrow> ustring \<Rightarrow> nat \<Rightarrow> entry" where
  "lesson sheetname weekday subj c =
     \<lparr>klasa = u ''1AT'', dzien = weekday, start = u ''07:10:00'', end' = u ''07:55:00'',
      przedmiot = subj, sheet = sheetname, row = 3, col = c\<rparr>"

text \<open>
  The strict form of a time, as the specification words it: one or two digits, a colon
  (U+003A), two digits, and nothing else. For a text of this form, \<open>hour_of\<close> is the
  number its hour digits denote and \<open>minute_of\<close> the two minute characters as written;
  \<open>hhmm00\<close> is the normalised text \<open>HH:MM:00\<close> built from them.
\<close>

fun is_hmm :: "ustring \<Rightarrow> bool" where
  "is_hmm [a, c, m1, m2] = (is_digit a \<and> c = 58 \<and> is_digit m1 \<and> is_digit m2)"
| "is_hmm [a, b, c, m1, m2] =
     (is_digit a \<and> is_digit b \<and> c = 58 \<and> is_digit m1 \<and> is_digit m2)"
| "is_hmm _ = False"

definition hour_of :: "ustring \<Rightarrow> nat" where
  "hour_of t = int_of_digits (takeWhile (\<lambda>c. c \<noteq> 58) t)"

definition minute_of :: "ustring \<Rightarrow> ustring" where
  "minute_of t = tl (dropWhile (\<lambda>c. c \<noteq> 58) t)"

definition hhmm00 :: "ustring \<Rightarrow> ustring" where
  "hhmm00 t = fmt02 (hour_of t) @ [58] @ minute_of t @ u '':00''"

text \<open>
  A time row whose times are no times of day, and the entry it yields under the class
  and weekday columns of the scenario.
\<close>

definition out_of_range_row :: "ustring list" where
  "out_of_range_row = [u ''99:99-99:99'', u ''Math'']"

definition out_of_range_lesson :: entry where
  "out_of_range_lesson =
     \<lparr>klasa = u ''1AT'', dzien = u ''Poniedzia'' @ [322] @ u ''ek'', start = u ''99:99:00'',
      end' = u ''99:99:00'', przedmiot = u ''Math'', sheet = u ''Plan'', row = 3, col = 2\<rparr>"

section \<open>Properties of escape_sql\<close>

lemma quote_not_space: "\<not> is_space 39"
  by (simp add: is_space_def)

lemma collapse_ws_spaces: "c \<in> set (collapse_ws s) \<Longrightarrow> is_space c \<Longrightarrow> c = 32"
proof (induction s rule: collapse_ws.induct)
  case 1
  then show ?case by simp
next
  case (2 a cs)
  show ?case
  proof (cases "is_space a")
    case True
    with 2 show ?thesis by (auto dest: set_dropWhileD)
  next
    case False
    with 2 show ?thesis by auto
  qed
qed

lemma collapse_ws_head:
  "s = [] \<or> \<not> is_space (hd s) \<Longrightarrow> collapse_ws s = [] \<or> \<not> is_space (hd (collapse_ws s))"
  by (cases s) auto

lemma dropWhile_head: "dropWhile P s = [] \<or> \<not> P (hd (dropWhile P s))"
  using hd_dropWhile by blast

lemma ws_run_Cons: "ws_run (a # s) = ((s \<noteq> [] \<and> is_space a \<and> is_space (hd s)) \<or> ws_run s)"
  by (cases s) auto

lemma collapse_ws_no_run: "\<not> ws_run (collapse_ws s)"
proof (induction s rule: collapse_ws.induct)
  case 1
  then show ?case by simp
next
  case (2 c cs)
  show ?case
  proof (cases "is_space c")
    case True
    have "collapse_ws (dropWhile is_space cs) = []
          \<or> \<not> is_space (hd (collapse_ws (dropWhile is_space cs)))"
      by (rule collapse_ws_head) (rule dropWhile_head)
    with True 2 show ?thesis by (auto simp: ws_run_Cons)
  next
    case False
    with 2 show ?thesis by (auto simp: ws_run_Cons)
  qed
qed

lemma replace_quote_hd:
  "s \<noteq> [] \<Longrightarrow> is_space (hd (replace_chr 39 [39, 39] s)) = is_space (hd s)"
  by (cases s) (auto simp: replace_chr_def quote_not_space)

lemma replace_quote_nil: "(replace_chr 39 [39, 39] s = []) = (s = [])"
  by (cases s) (auto simp: replace_chr_def)

lemma replace_quote_Cons:
  "replace_chr 39 [39, 39] (c # s) =
     (if c = 39 then 39 # 39 # replace_chr 39 [39, 39] s else c # replace_chr 39 [39, 39] s)"
  by (simp add: replace_chr_def)

lemma replace_quote_no_run: "ws_run (replace_chr 39 [39, 39] s) = ws_run s"
proof (induction s)
  case Nil
  then show ?case by (simp add: replace_chr_def)
next
  case (Cons c s)
  then show ?case
    by (auto simp: replace_quote_Cons ws_run_Cons replace_quote_hd replace_quote_nil
        quote_not_space)
qed

lemma replace_quote_doubled: "quotes_doubled (replace_chr 39 [39, 39] s)"
  by (induction s) (auto simp: replace_quote_Cons replace_chr_def)

lemma replace_quote_count:
  "count_list (replace_chr 39 [39, 39] s) 39 = 2 * count_list s 39"
  by (induction s) (auto simp: replace_quote_Cons replace_chr_def)

lemma replace_quote_set: "set (replace_chr 39 [39, 39] s) = set s"
  by (induction s) (auto simp: replace_quote_Cons replace_chr_def)

lemma count_dropWhile: "\<not> P c \<Longrightarrow> count_list (dropWhile P s) c = count_list s c"
  by (induction s) auto

lemma count_rev: "count_list (rev s) c = count_list s c"
  by (induction s) auto

lemma count_strip: "\<not> is_space c \<Longrightarrow> count_list (strip s) c = count_list s c"
  by (simp add: strip_def count_rev count_dropWhile)

lemma space_is_space: "is_space 32"
  by (simp add: is_space_def)

lemma count_collapse_ws: "\<not> is_space c \<Longrightarrow> count_list (collapse_ws s) c = count_list s c"
proof (induction s rule: collapse_ws.induct)
  case 1
  then show ?case by simp
next
  case (2 a cs)
  from 2 have ne: "c \<noteq> 32" "is_space a \<Longrightarrow> a \<noteq> c"
    using space_is_space by auto
  show ?case
  proof (cases "is_space a")
    case True
    with 2 ne show ?thesis by (simp add: count_dropWhile)
  next
    case False
    with 2 show ?thesis by simp
  qed
qed

lemma count_replace_other:
  "c \<noteq> a \<Longrightarrow> c \<notin> set b \<Longrightarrow> count_list (replace_chr a b s) c = count_list s c"
  by (induction s) (auto simp: replace_chr_def)

text \<open>
  C6. For every string \<open>s\<close>, \<open>escape_sql(s)\<close> holds no line feed (U+000A) and no
  carriage return (U+000D), holds no run of two or more white-space characters, and
  every single quote of \<open>s\<close> appears doubled in it: the quotes of the result stand in
  adjacent pairs, and there are twice as many as in \<open>s\<close>.
\<close>

theorem escape_sql_output:
  "10 \<notin> set (escape_sql (Some s)) \<and> 13 \<notin> set (escape_sql (Some s))
   \<and> \<not> ws_run (escape_sql (Some s))
   \<and> quotes_doubled (escape_sql (Some s))
   \<and> count_list (escape_sql (Some s)) 39 = 2 * count_list s 39"
proof -
  define t where "t = strip (replace_chr 13 [32] (replace_chr 10 [32] s))"
  have e: "escape_sql (Some s) = replace_chr 39 [39, 39] (collapse_ws t)"
    by (simp add: escape_sql_def t_def)
  have nl: "10 \<notin> set (collapse_ws t)"
    using collapse_ws_spaces [of 10 t] by (auto simp: is_space_def)
  have cr: "13 \<notin> set (collapse_ws t)"
    using collapse_ws_spaces [of 13 t] by (auto simp: is_space_def)
  have cnt: "count_list t 39 = count_list s 39"
    by (simp add: t_def count_strip quote_not_space count_replace_other)
  show ?thesis
    by (simp add: e replace_quote_set nl cr replace_quote_no_run collapse_ws_no_run
        replace_quote_doubled replace_quote_count count_collapse_ws quote_not_space cnt)
qed

theorem escape_sql_output_witness:
  "10 \<notin> set (escape_sql (Some [10, 39, 32, 13, 32, 97, 39])) \<and>
   13 \<notin> set (escape_sql (Some [10, 39, 32, 13, 32, 97, 39])) \<and>
   \<not> ws_run (escape_sql (Some [10, 39, 32, 13, 32, 97, 39])) \<and>
   quotes_doubled (escape_sql (Some [10, 39, 32, 13, 32, 97, 39])) \<and>
   count_list (escape_sql (Some [10, 39, 32, 13, 32, 97, 39])) 39 = 4"
  using escape_sql_output [of "[10, 39, 32, 13, 32, 97, 39]"] by simp

text \<open>
  C7. \<open>escape_sql\<close> is not idempotent: for the string that is one single quote, the
  second application doubles the two quotes of the first again.
\<close>

theorem escape_sql_not_idempotent:
  "\<exists>s. escape_sql (Some (escape_sql (Some s))) \<noteq> escape_sql (Some s)"
proof
  show "escape_sql (Some (escape_sql (Some [39]))) \<noteq> escape_sql (Some [39])"
    by (simp add: escape_sql_def replace_chr_def strip_def is_space_def)
qed

section \<open>Evaluation on concrete text\<close>

lemma str_nat_lt10: "n < 10 \<Longrightarrow> str_nat n = [48 + n]"
  by (simp add: str_nat.simps)

lemma str_nat_ge10: "10 \<le> n \<Longrightarrow> str_nat n = str_nat (n div 10) @ [48 + n mod 10]"
  by (subst str_nat.simps) simp

lemmas chars = u_def is_space_def is_digit_def digit_value_def digit_starts_def is_dash_def

lemmas evals = chars strip_def fmt02_def int_of_digits_def str_nat_lt10 str_nat_ge10
  lower_def lower_cp_def capitalize_def title_cp_def WEEKDAYS_def

lemma header_row_header: "first_match header_class_match header_row = Some (u ''1AT'')"
  by (simp add: header_row_def header_class_match_def chars)

lemma header_row_weekdays: "find_weekday_columns header_row = []"
  by (simp add: header_row_def find_weekday_columns_def evals)

lemma header_row_time: "first_match time_search header_row = None"
  by (simp add: header_row_def time_at_def chars)

lemma weekday_row_english_header: "first_match header_class_match weekday_row_english = None"
  by (simp add: weekday_row_english_def header_class_match_def chars)

lemma weekday_row_english_weekdays: "find_weekday_columns weekday_row_english = []"
  by (simp add: weekday_row_english_def find_weekday_columns_def evals)

lemma weekday_row_english_time: "first_match time_search weekday_row_english = None"
  by (simp add: weekday_row_english_def time_at_def chars)

lemma weekday_row_polish_header: "first_match header_class_match weekday_row_polish = None"
  by (simp add: weekday_row_polish_def header_class_match_def chars)

lemma weekday_row_polish_weekdays:
  "find_weekday_columns weekday_row_polish =
     [(1, u ''Poniedzia'' @ [322] @ u ''ek''), (2, u ''Wtorek''), (3, [346] @ u ''roda''),
      (4, u ''Czwartek''), (5, u ''Pi'' @ [261] @ u ''tek'')]"
  by (simp add: weekday_row_polish_def find_weekday_columns_def evals)

lemma time_row_header: "first_match header_class_match time_row = None"
  by (simp add: time_row_def header_class_match_def chars)

lemma time_row_weekdays: "find_weekday_columns time_row = []"
  by (simp add: time_row_def find_weekday_columns_def evals)

lemma time_row_time:
  "first_match time_search time_row = Some (u ''7:10-7:55'', u ''7:10'', u ''7:55'')"
  by (simp add: time_row_def time_at_def chars)

lemma time_710: "normalize_time (u ''7:10'') = Some (u ''07:10:00'')"
  by (simp add: normalize_time_def hmm_match_def evals)

lemma time_755: "normalize_time (u ''7:55'') = Some (u ''07:55:00'')"
  by (simp add: normalize_time_def hmm_match_def evals)

section \<open>Properties of parse_excel_to_plan\<close>

text \<open>
  C1, as the code has it. A file that cannot be opened does not abort the call: for
  every diagnostic message \<open>e\<close> of the failure, \<open>parse_excel_to_plan\<close> returns
  normally, with an empty list of entries, nothing logged, and a list of warnings that
  holds one message, the fixed prefix followed by \<open>e\<close> unchanged.
\<close>

theorem open_failure_returned_as_warning:
  "parse_excel_to_plan (OpenError e) = ([], [u ''B'' @ [322, 261] @ u ''d otwarcia pliku: '' @ e], [])"
  by (simp add: parse_excel_to_plan_def)

text \<open>
  C1 as stated fails: for the failure message \<open>No such file\<close> the call returns the pair
  of an empty entry list and a one-element warning list, the very form of a run that
  ended with a recoverable warning.
\<close>

theorem open_failure_counterexample:
  "parse_excel_to_plan (OpenError (u ''No such file'')) =
     ([], [u ''B'' @ [322, 261] @ u ''d otwarcia pliku: No such file''], [])"
  by (simp add: parse_excel_to_plan_def u_def)

lemma find_weekday_columns_size:
  "find_weekday_columns cells = [] \<or> 3 \<le> length (find_weekday_columns cells)"
  by (simp add: find_weekday_columns_def Let_def)

lemma header_step_cols:
  "weekday_cols (header_step sheetname i cells s) = []
   \<or> weekday_cols (header_step sheetname i cells s) = weekday_cols s"
  by (simp add: header_step_def split: option.split)

lemma time_step_cols: "weekday_cols (time_step sheetname i cells s) = weekday_cols s"
  by (simp add: time_step_def Let_def split: option.split prod.split)

lemma process_row_cols:
  assumes "weekday_cols s = [] \<or> 3 \<le> length (weekday_cols s)"
  shows "weekday_cols (process_row sheetname i cells s) = []
         \<or> 3 \<le> length (weekday_cols (process_row sheetname i cells s))"
proof -
  let ?s1 = "header_step sheetname i cells s"
  have s1: "weekday_cols ?s1 = [] \<or> 3 \<le> length (weekday_cols ?s1)"
    using assms header_step_cols [of sheetname i cells s] by auto
  show ?thesis
  proof (cases "weekday_cols ?s1 = [] \<and> find_weekday_columns cells \<noteq> []")
    case True
    then show ?thesis
      using find_weekday_columns_size [of cells] by (simp add: process_row_def Let_def)
  next
    case False
    have "process_row sheetname i cells s = time_step sheetname i cells ?s1"
      unfolding process_row_def Let_def by (rule if_not_P [OF False])
    then show ?thesis using s1 by (simp add: time_step_cols)
  qed
qed

lemma scan_rows_cols:
  "weekday_cols s = [] \<or> 3 \<le> length (weekday_cols s) \<Longrightarrow>
   weekday_cols (scan_rows sheetname i rows s) = []
   \<or> 3 \<le> length (weekday_cols (scan_rows sheetname i rows s))"
proof (induction rows arbitrary: i s)
  case Nil
  then show ?case by simp
next
  case (Cons cells rows)
  show ?case
    using Cons.IH [OF process_row_cols [OF Cons.prems]] by simp
qed

text \<open>
  C9. Invariant of the scan of a sheet: after any prefix of the rows of a sheet, scanned
  from the state in which a sheet starts (no class, no weekday columns), the weekday
  columns of the state are empty or hold at least 3 entries; and
  \<open>find_weekday_columns\<close>, the only source of a non-empty value, never returns a mapping
  of size 1 or 2.
\<close>

theorem weekday_cols_empty_or_three:
  "(weekday_cols (scan_rows sheetname 0 (take n rows)
                   (s\<lparr>current_class := None, weekday_cols := []\<rparr>)) = []
    \<or> 3 \<le> length (weekday_cols (scan_rows sheetname 0 (take n rows)
                                  (s\<lparr>current_class := None, weekday_cols := []\<rparr>))))
   \<and> (find_weekday_columns cells = [] \<or> 3 \<le> length (find_weekday_columns cells))"
proof
  show "weekday_cols (scan_rows sheetname 0 (take n rows)
                   (s\<lparr>current_class := None, weekday_cols := []\<rparr>)) = []
    \<or> 3 \<le> length (weekday_cols (scan_rows sheetname 0 (take n rows)
                                  (s\<lparr>current_class := None, weekday_cols := []\<rparr>)))"
    by (rule scan_rows_cols) simp
  show "find_weekday_columns cells = [] \<or> 3 \<le> length (find_weekday_columns cells)"
    by (rule find_weekday_columns_size)
qed

lemma add_subjects_rows:
  "\<exists>more. add_subjects cls st en sheetname i cells items pl = pl @ more
          \<and> (\<forall>e\<in>set more. row e = i + 1)"
proof (induction items arbitrary: pl)
  case Nil
  then show ?case by simp
next
  case (Cons item items)
  obtain c w where item: "item = (c, w)" by (cases item)
  let ?e = "\<lparr>klasa = cls, dzien = w, start = st, end' = en,
             przedmiot = escape_sql (Some (strip (cells ! c))), sheet = sheetname,
             row = i + 1, col = c + 1\<rparr>"
  show ?case
  proof (cases "c < length cells \<and> strip (cells ! c) \<noteq> []")
    case True
    from Cons.IH [of "pl @ [?e]"] obtain more where
      "add_subjects cls st en sheetname i cells items (pl @ [?e]) = (pl @ [?e]) @ more"
      "\<forall>e\<in>set more. row e = i + 1" by blast
    with True item show ?thesis
      by (intro exI [of _ "?e # more"]) (simp add: Let_def)
  next
    case False
    with Cons.IH [of pl] item show ?thesis by (auto simp: Let_def)
  qed
qed

lemma header_step_plan: "plan (header_step sheetname i cells s) = plan s"
  by (simp add: header_step_def split: option.split)

lemma time_step_plan:
  "\<exists>more. plan (time_step sheetname i cells s) = plan s @ more
          \<and> (\<forall>e\<in>set more. row e = i + 1)"
proof (cases "first_match time_search cells")
  case None
  then show ?thesis by (simp add: time_step_def)
next
  case (Some m)
  obtain g0 g1 g2 where m: "m = (g0, g1, g2)" by (cases m)
  define s1 where "s1 = (if \<not> truthy (current_class s)
                     then s\<lparr>current_class := Some (u ''UNKNOWN''),
                            errors := errors s @
                              [u ''['' @ sheetname @ u ''] Wiersz '' @ str_nat (i + 1)
                               @ u '': godziny znalezione, ale brak klasy '' @ [8594]
                               @ u '' ustawiono UNKNOWN'']\<rparr>
                     else s)"
  have p1: "plan s1 = plan s" by (simp add: s1_def)
  have "plan (time_step sheetname i cells s) = plan s
        \<or> (\<exists>cls st en. plan (time_step sheetname i cells s) =
              add_subjects cls st en sheetname i cells (weekday_cols s1) (plan s))"
    unfolding time_step_def Some m s1_def [symmetric]
    by (auto simp: Let_def p1 split: option.split)
  then show ?thesis
  proof
    assume "plan (time_step sheetname i cells s) = plan s"
    then show ?thesis by simp
  next
    assume "\<exists>cls st en. plan (time_step sheetname i cells s) =
              add_subjects cls st en sheetname i cells (weekday_cols s1) (plan s)"
    then show ?thesis using add_subjects_rows by metis
  qed
qed

lemma process_row_plan:
  "\<exists>more. plan (process_row sheetname i cells s) = plan s @ more
          \<and> (\<forall>e\<in>set more. row e = i + 1)"
proof (cases "weekday_cols (header_step sheetname i cells s) = []
              \<and> find_weekday_columns cells \<noteq> []")
  case True
  then show ?thesis by (simp add: process_row_def Let_def header_step_plan)
next
  case False
  have "process_row sheetname i cells s
        = time_step sheetname i cells (header_step sheetname i cells s)"
    unfolding process_row_def Let_def by (rule if_not_P [OF False])
  then show ?thesis
    using time_step_plan [of sheetname i cells "header_step sheetname i cells s"]
    by (simp add: header_step_plan)
qed

lemma scan_rows_plan:
  "\<exists>more. plan (scan_rows sheetname i rows s) = plan s @ more
          \<and> (\<forall>e\<in>set more. i < row e)"
proof (induction rows arbitrary: i s)
  case Nil
  then show ?case by simp
next
  case (Cons cells rows)
  obtain m1 where m1: "plan (process_row sheetname i cells s) = plan s @ m1"
    "\<forall>e\<in>set m1. row e = i + 1" using process_row_plan by blast
  obtain m2 where m2: "plan (scan_rows sheetname (Suc i) rows (process_row sheetname i cells s))
      = plan (process_row sheetname i cells s) @ m2" "\<forall>e\<in>set m2. Suc i < row e"
    using Cons.IH by blast
  show ?case
    by (rule exI [of _ "m1 @ m2"]) (use m1 m2 in auto)
qed

lemma scenario_header_row:
  "process_row sheetname 0 header_row first_state = after_header sheetname"
  by (simp add: process_row_def header_step_def time_step_def header_row_header
      header_row_weekdays header_row_time first_state_def after_header_def str_nat_lt10 u_def)

lemma scenario_weekday_row_english:
  "process_row sheetname 1 weekday_row_english (after_header sheetname) = after_header sheetname"
  by (simp add: process_row_def header_step_def time_step_def weekday_row_english_header
      weekday_row_english_weekdays weekday_row_english_time after_header_def)

lemma scenario_time_row_english:
  "plan (process_row sheetname 2 time_row (after_header sheetname)) = []
   \<and> errors (process_row sheetname 2 time_row (after_header sheetname)) =
       [u ''['' @ sheetname @ u ''] Wiersz 3: godziny znalezione, ale brak dni tygodnia'']"
  by (simp add: process_row_def header_step_def time_step_def time_row_header
      time_row_weekdays time_row_time after_header_def str_nat_lt10 u_def)

lemma scenario_weekday_row_polish:
  "weekday_cols (process_row sheetname 1 weekday_row_polish (after_header sheetname)) =
     find_weekday_columns weekday_row_polish
   \<and> current_class (process_row sheetname 1 weekday_row_polish (after_header sheetname))
       = Some (u ''1AT'')
   \<and> plan (process_row sheetname 1 weekday_row_polish (after_header sheetname)) = []
   \<and> errors (process_row sheetname 1 weekday_row_polish (after_header sheetname)) = []"
  by (simp add: process_row_def header_step_def weekday_row_polish_header
      weekday_row_polish_weekdays after_header_def)

lemma scenario_time_row_polish:
  assumes "weekday_cols s = find_weekday_columns weekday_row_polish"
    "current_class s = Some (u ''1AT'')" "plan s = []"
  shows "plan (process_row sheetname 2 time_row s) =
     [lesson sheetname (u ''Poniedzia'' @ [322] @ u ''ek'') (u ''Math'') 2,
      lesson sheetname (u ''Wtorek'') (u ''Physics'') 3,
      lesson sheetname (u ''Czwartek'') (u ''Chemistry'') 5]"
proof -
  have h: "header_step sheetname 2 time_row s = s"
    by (simp add: header_step_def time_row_header)
  have c: "strip (u ''Math'') = u ''Math''" "strip (u ''Physics'') = u ''Physics''"
    "strip (u ''Chemistry'') = u ''Chemistry''" "strip [] = []"
    by (simp_all add: strip_def chars)
  have n: "u ''Math'' \<noteq> []" "u ''Physics'' \<noteq> []" "u ''Chemistry'' \<noteq> []"
    by (simp_all add: u_def)
  have e: "escape_sql (Some (u ''Math'')) = u ''Math''"
    "escape_sql (Some (u ''Physics'')) = u ''Physics''"
    "escape_sql (Some (u ''Chemistry'')) = u ''Chemistry''"
    by (simp_all add: escape_sql_def replace_chr_def strip_def chars)
  have a: "add_subjects (u ''1AT'') (u ''07:10:00'') (u ''07:55:00'') sheetname 2 time_row
             (find_weekday_columns weekday_row_polish) [] =
           [lesson sheetname (u ''Poniedzia'' @ [322] @ u ''ek'') (u ''Math'') 2,
            lesson sheetname (u ''Wtorek'') (u ''Physics'') 3,
            lesson sheetname (u ''Czwartek'') (u ''Chemistry'') 5]"
    unfolding weekday_row_polish_weekdays by (simp add: time_row_def c e n lesson_def Let_def)
  have w: "find_weekday_columns weekday_row_polish \<noteq> []"
    by (simp add: weekday_row_polish_weekdays)
  have t: "u ''07:10:00'' \<noteq> []" "u ''07:55:00'' \<noteq> []" "u ''1AT'' \<noteq> []"
    by (simp_all add: u_def)
  show ?thesis
    by (simp add: process_row_def h assms w time_step_def time_row_time time_710 time_755 a t)
qed

lemma scan_three_rows:
  "scan_rows sheetname 0 (a # b # c # rest) s =
     scan_rows sheetname 3 rest
       (process_row sheetname 2 c (process_row sheetname 1 b (process_row sheetname 0 a s)))"
  by (simp add: numeral_3_eq_3 numeral_2_eq_2)

lemma parse_one_sheet:
  "parse_excel_to_plan (Opened [(sheetname, Grid rows)]) =
     (plan (scan_rows sheetname 0 rows first_state),
      errors (scan_rows sheetname 0 rows first_state),
      log (scan_rows sheetname 0 rows first_state))"
  by (simp add: parse_excel_to_plan_def first_state_def Let_def)

text \<open>
  C2 as stated fails: with the weekday row \<open>["", "Mon", "Tue", "Wed", "Thu", "Fri"]\<close>
  no cell matches the weekday names of the code, the row is no weekday header, and the
  time row yields no entry and one warning.
\<close>

theorem scenario_english_counterexample:
  "parse_excel_to_plan (Opened [(u ''Plan'', Grid [header_row, weekday_row_english, time_row])]) =
     ([],
      [u ''[Plan] Wiersz 3: godziny znalezione, ale brak dni tygodnia''],
      [u ''[Plan] Znaleziono klas'' @ [281] @ u '' '' @ [39] @ u ''1AT'' @ [39] @ u '' w wierszu 1''])"
proof -
  let ?s = "process_row (u ''Plan'') 2 time_row (after_header (u ''Plan''))"
  have l: "log ?s = log (after_header (u ''Plan''))"
    by (simp add: process_row_def header_step_def time_step_def time_row_header
      time_row_weekdays time_row_time after_header_def Let_def u_def)
  have "scan_rows (u ''Plan'') 0 [header_row, weekday_row_english, time_row] first_state = ?s"
    by (simp only: scan_three_rows scenario_header_row scenario_weekday_row_english
        scan_rows.simps(1))
  then show ?thesis
    using scenario_time_row_english [of "u ''Plan''"] l
    by (simp add: parse_one_sheet after_header_def u_def)
qed

text \<open>
  C2, as the code has it. With the weekday row written in the names the code knows
  (here their three-letter prefixes), the sheet of the three rows yields exactly 3
  entries, all with class \<open>1AT\<close>, start \<open>07:10:00\<close> and end \<open>07:55:00\<close>, for Monday,
  Tuesday and Thursday in the code's capitalised names, from columns 2, 3 and 5 of row
  3, and none for the empty cells. When further rows follow, these are the first three
  entries and every other entry comes from a later row.
\<close>

theorem scenario_polish_weekdays:
  "fst (parse_excel_to_plan (Opened [(sheetname, Grid [header_row, weekday_row_polish, time_row])])) =
     [lesson sheetname (u ''Poniedzia'' @ [322] @ u ''ek'') (u ''Math'') 2,
      lesson sheetname (u ''Wtorek'') (u ''Physics'') 3,
      lesson sheetname (u ''Czwartek'') (u ''Chemistry'') 5]
   \<and> (\<exists>more.
        fst (parse_excel_to_plan
               (Opened [(sheetname, Grid (header_row # weekday_row_polish # time_row # rest))])) =
          [lesson sheetname (u ''Poniedzia'' @ [322] @ u ''ek'') (u ''Math'') 2,
           lesson sheetname (u ''Wtorek'') (u ''Physics'') 3,
           lesson sheetname (u ''Czwartek'') (u ''Chemistry'') 5] @ more
        \<and> (\<forall>e\<in>set more. 3 < row e))"
proof -
  let ?s2 = "process_row sheetname 1 weekday_row_polish (after_header sheetname)"
  let ?s3 = "process_row sheetname 2 time_row ?s2"
  let ?ls = "[lesson sheetname (u ''Poniedzia'' @ [322] @ u ''ek'') (u ''Math'') 2,
      lesson sheetname (u ''Wtorek'') (u ''Physics'') 3,
      lesson sheetname (u ''Czwartek'') (u ''Chemistry'') 5]"
  have p3: "plan ?s3 = ?ls"
    using scenario_weekday_row_polish [of sheetname]
    by (intro scenario_time_row_polish) simp_all
  have sc: "scan_rows sheetname 0 (header_row # weekday_row_polish # time_row # rs) first_state
            = scan_rows sheetname 3 rs ?s3" for rs
    by (simp only: scan_three_rows scenario_header_row)
  have a: "fst (parse_excel_to_plan
                  (Opened [(sheetname, Grid [header_row, weekday_row_polish, time_row])])) = ?ls"
    by (simp only: parse_one_sheet fst_conv sc scan_rows.simps(1) p3)
  obtain more where m: "plan (scan_rows sheetname 3 rest ?s3) = plan ?s3 @ more"
    "\<forall>e\<in>set more. 3 < row e"
    using scan_rows_plan [of sheetname 3 rest ?s3] by blast
  have b: "fst (parse_excel_to_plan
                  (Opened [(sheetname, Grid (header_row # weekday_row_polish # time_row # rest))]))
           = ?ls @ more"
    by (simp only: parse_one_sheet fst_conv sc m p3)
  from a b m(2) show ?thesis by blast
qed

theorem scenario_polish_weekdays_witness:
  "fst (parse_excel_to_plan
          (Opened [(u ''Plan'', Grid [header_row, weekday_row_polish, time_row])])) =
     [lesson (u ''Plan'') (u ''Poniedzia'' @ [322] @ u ''ek'') (u ''Math'') 2,
      lesson (u ''Plan'') (u ''Wtorek'') (u ''Physics'') 3,
      lesson (u ''Plan'') (u ''Czwartek'') (u ''Chemistry'') 5]
   \<and> (\<exists>more.
        fst (parse_excel_to_plan
               (Opened [(u ''Plan'',
                  Grid [header_row, weekday_row_polish, time_row, [u ''8:00-8:45'', u ''Art'']])])) =
          [lesson (u ''Plan'') (u ''Poniedzia'' @ [322] @ u ''ek'') (u ''Math'') 2,
           lesson (u ''Plan'') (u ''Wtorek'') (u ''Physics'') 3,
           lesson (u ''Plan'') (u ''Czwartek'') (u ''Chemistry'') 5] @ more
        \<and> (\<forall>e\<in>set more. 3 < row e))"
  by (rule scenario_polish_weekdays)

section \<open>Properties of normalize_time\<close>

lemma colon_not_digit: "\<not> is_digit 58"
  by (simp add: is_digit_def digit_value_def digit_starts_def)

lemma linefeed_is_space: "is_space 10"
  by (simp add: is_space_def)

lemma colon_not_space: "\<not> is_space 58"
  by (simp add: is_space_def)

lemma digit_not_colon: "is_digit c \<Longrightarrow> c \<noteq> 58"
  using colon_not_digit by auto

lemma hmm_match_4:
  "hmm_match [a, c, m1, m2] =
     (if is_hmm [a, c, m1, m2] then Some ([a], [m1, m2]) else None)"
  using colon_not_digit by (auto simp: hmm_match_def)

lemma hmm_match_5:
  "m2 \<noteq> 10 \<Longrightarrow> hmm_match [a, b, c, m1, m2] =
     (if is_hmm [a, b, c, m1, m2] then Some ([a, b], [m1, m2]) else None)"
  using colon_not_digit by (auto simp: hmm_match_def)


lemma hmm_match_is_hmm:
  assumes "s = [] \<or> last s \<noteq> 10"
  shows "hmm_match s =
           (if is_hmm s then Some (takeWhile (\<lambda>c. c \<noteq> 58) s, minute_of s) else None)"
  using assms colon_not_digit
  by (cases s rule: is_hmm.cases)
     (auto simp: hmm_match_def minute_of_def split: list.splits dest: digit_not_colon)

lemma strip_last: "strip t = [] \<or> \<not> is_space (last (strip t))"
proof -
  let ?r = "dropWhile is_space (rev (dropWhile is_space t))"
  have "?r = [] \<or> \<not> is_space (hd ?r)" using hd_dropWhile by blast
  then show ?thesis by (auto simp: strip_def last_rev)
qed

lemma strip_no_linefeed: "strip t = [] \<or> last (strip t) \<noteq> 10"
  using strip_last [of t] linefeed_is_space by auto

lemma is_hmm_nonempty: "is_hmm s \<Longrightarrow> s \<noteq> []"
  by auto

lemma strip_nil: "strip [] = []"
  by (simp add: strip_def)

lemma normalize_time_eq:
  "normalize_time t = (if is_hmm (strip t) then Some (hhmm00 (strip t)) else None)"
proof (cases "t = []")
  case True
  then show ?thesis by (simp add: normalize_time_def strip_nil)
next
  case False
  then show ?thesis
    by (simp add: normalize_time_def hmm_match_is_hmm [OF strip_no_linefeed] hhmm00_def
        hour_of_def)
qed


lemma digit_in_range:
  "digit_in ss c = Some d \<Longrightarrow> \<exists>s\<in>set ss. s \<le> c \<and> c < s + 10 \<and> d = c - s"
  by (induction ss) (auto split: if_splits)

lemma digit_value_lt10: "digit_value c = Some d \<Longrightarrow> d < 10"
  using digit_in_range [of digit_starts c d] by (auto simp: digit_value_def)

lemma digit_ranges:
  assumes "is_digit c"
  shows "(48 \<le> c \<and> c < 58) \<or> (1632 \<le> c \<and> c < 4250) \<or> (6112 \<le> c \<and> c < 7258)
         \<or> 42528 \<le> c"
proof -
  from assms obtain d where "digit_in digit_starts c = Some d"
    by (auto simp: is_digit_def digit_value_def)
  then obtain s where s: "s \<in> set digit_starts" "s \<le> c" "c < s + 10"
    using digit_in_range by blast
  from s(1) have "s = 48 \<or> (1632 \<le> s \<and> s \<le> 4240) \<or> (6112 \<le> s \<and> s \<le> 7248) \<or> 42528 \<le> s"
    by (auto simp: digit_starts_def)
  with s(2,3) show ?thesis by arith
qed

lemma digit_not_space: "is_digit c \<Longrightarrow> \<not> is_space c"
  using digit_ranges [of c] unfolding is_space_def by arith

lemma is_hmm_shape:
  assumes "is_hmm t"
  shows "\<exists>h m. t = h @ [58] @ m \<and> (length h = 1 \<or> length h = 2) \<and> list_all is_digit h
               \<and> length m = 2 \<and> list_all is_digit m
               \<and> takeWhile (\<lambda>c. c \<noteq> 58) t = h \<and> minute_of t = m"
  using assms
  by (cases t rule: is_hmm.cases) (auto simp: minute_of_def dest: digit_not_colon)

lemma int_of_digits_lt100:
  assumes "length h = 1 \<or> length h = 2"
  shows "int_of_digits h < 100"
proof -
  have v: "(case digit_value c of Some d \<Rightarrow> d | None \<Rightarrow> 0) < 10" for c
    using digit_value_lt10 [of c] by (cases "digit_value c") auto
  from assms consider a where "h = [a]" | a b where "h = [a, b]"
    by (cases h; cases "tl h"; auto)
  then show ?thesis
  proof cases
    case 1
    then show ?thesis using v [of a] by (simp add: int_of_digits_def)
  next
    case 2
    then show ?thesis using v [of a] v [of b] by (simp add: int_of_digits_def)
  qed
qed

lemma fmt02_two_digits: "n < 100 \<Longrightarrow> fmt02 n = [48 + n div 10, 48 + n mod 10]"
proof (cases "n < 10")
  case True
  then show ?thesis by (simp add: fmt02_def str_nat.simps)
next
  case False
  assume "n < 100"
  with False have "n div 10 < 10" by simp
  then have "str_nat (n div 10) = [48 + n div 10]" by (simp add: str_nat.simps)
  with False show ?thesis by (simp add: fmt02_def str_nat.simps [of n])
qed

lemma fmt02_inj: "a < 100 \<Longrightarrow> b < 100 \<Longrightarrow> fmt02 a = fmt02 b \<Longrightarrow> a = b"
proof -
  assume "a < 100" "b < 100" "fmt02 a = fmt02 b"
  then have "a div 10 = b div 10" "a mod 10 = b mod 10"
    by (simp_all add: fmt02_two_digits)
  then show "a = b" by (metis div_mult_mod_eq)
qed

lemma strip_padded:
  assumes "list_all is_space ws1" "list_all is_space ws2" "s \<noteq> []"
    "\<not> is_space (hd s)" "\<not> is_space (last s)"
  shows "strip (ws1 @ s @ ws2) = s"
proof -
  have a: "dropWhile is_space (ws1 @ s @ ws2) = s @ ws2"
    using assms(1,3,4) by (simp add: dropWhile_append2 list_all_iff dropWhile_eq_self_iff)
  have b: "dropWhile is_space (rev ws2 @ rev s) = rev s"
    using assms(2,3,5) dropWhile_append2 [of "rev ws2" is_space "rev s"]
    by (simp add: list_all_iff dropWhile_eq_self_iff hd_rev)
  show ?thesis by (simp add: strip_def a b)
qed

lemma is_hmm_ends:
  assumes "is_hmm s"
  shows "s \<noteq> [] \<and> \<not> is_space (hd s) \<and> \<not> is_space (last s)"
  using assms by (cases s rule: is_hmm.cases) (auto dest: digit_not_space)

lemma strip_is_hmm: "is_hmm s \<Longrightarrow> strip s = s"
  using strip_padded [of "[]" "[]" s] is_hmm_ends [of s] by simp

lemma is_hmm_facts:
  assumes "is_hmm t"
  shows "hour_of t < 100" "length (minute_of t) = 2"
    "hhmm00 t = [48 + hour_of t div 10, 48 + hour_of t mod 10, 58] @ minute_of t @ [58, 48, 48]"
proof -
  from is_hmm_shape [OF assms] obtain h m where
    hm: "length h = 1 \<or> length h = 2" "length m = 2"
      "takeWhile (\<lambda>c. c \<noteq> 58) t = h" "minute_of t = m" by blast
  show h: "hour_of t < 100" using int_of_digits_lt100 [OF hm(1)] by (simp add: hour_of_def hm(3))
  show "length (minute_of t) = 2" using hm by simp
  show "hhmm00 t = [48 + hour_of t div 10, 48 + hour_of t mod 10, 58] @ minute_of t @ [58, 48, 48]"
    by (simp add: hhmm00_def fmt02_two_digits [OF h] u_def)
qed

text \<open>
  C5, as the code has it. \<open>normalize_time\<close> trims white space before it matches, so
  it returns a value exactly for the inputs whose trimmed text has the strict form
  \<open>H:MM\<close> or \<open>HH:MM\<close>, and no value for every other input. For an input that has the
  strict form itself the value is 8 characters long: the hour as two ASCII digits, a
  colon, the two minute characters as written, and \<open>:00\<close>. On such inputs equal results
  come only from equal hours and equal minutes.
\<close>

theorem normalize_time_valid_forms:
  "normalize_time t = (if is_hmm (strip t) then Some (hhmm00 (strip t)) else None)
   \<and> (is_hmm t \<longrightarrow>
        normalize_time t = Some (hhmm00 t) \<and> length (hhmm00 t) = 8
        \<and> hhmm00 t = [48 + hour_of t div 10, 48 + hour_of t mod 10, 58] @ minute_of t @ [58, 48, 48]
        \<and> hour_of t < 100 \<and> length (minute_of t) = 2)
   \<and> (is_hmm t \<and> is_hmm t' \<and> normalize_time t = normalize_time t' \<longrightarrow>
        hour_of t = hour_of t' \<and> minute_of t = minute_of t')"
proof (intro conjI impI)
  show "normalize_time t = (if is_hmm (strip t) then Some (hhmm00 (strip t)) else None)"
    by (rule normalize_time_eq)
next
  assume v: "is_hmm t"
  show "normalize_time t = Some (hhmm00 t)"
    by (simp add: normalize_time_eq strip_is_hmm [OF v] v)
  show "hhmm00 t = [48 + hour_of t div 10, 48 + hour_of t mod 10, 58] @ minute_of t @ [58, 48, 48]"
    by (rule is_hmm_facts(3) [OF v])
  show "length (hhmm00 t) = 8"
    by (simp add: is_hmm_facts(3) [OF v] is_hmm_facts(2) [OF v])
  show "hour_of t < 100" by (rule is_hmm_facts(1) [OF v])
  show "length (minute_of t) = 2" by (rule is_hmm_facts(2) [OF v])
next
  assume a: "is_hmm t \<and> is_hmm t' \<and> normalize_time t = normalize_time t'"
  then have v: "is_hmm t" and v': "is_hmm t'" by simp_all
  from a have "hhmm00 t = hhmm00 t'"
    by (simp add: normalize_time_eq strip_is_hmm v v')
  then have e: "fmt02 (hour_of t) @ [58] @ minute_of t = fmt02 (hour_of t') @ [58] @ minute_of t'"
    by (simp add: hhmm00_def)
  have l: "length (fmt02 (hour_of t)) = length (fmt02 (hour_of t'))"
    by (simp add: fmt02_two_digits is_hmm_facts(1) v v')
  from e l have "fmt02 (hour_of t) = fmt02 (hour_of t')" "minute_of t = minute_of t'"
    by simp_all
  then show "hour_of t = hour_of t'" "minute_of t = minute_of t'"
    using fmt02_inj [OF is_hmm_facts(1) [OF v] is_hmm_facts(1) [OF v']] by simp_all
qed

text \<open>
  C5 as stated fails in its last part: the input \<open>" 7:10"\<close>, with a leading space, is
  not of the form \<open>H:MM\<close> or \<open>HH:MM\<close>, and yet a value is returned for it.
\<close>

theorem normalize_time_trimmed_counterexample:
  "\<not> is_hmm (u '' 7:10'') \<and> normalize_time (u '' 7:10'') = Some (u ''07:10:00'')"
  by (simp add: normalize_time_def hmm_match_def evals)

theorem normalize_time_valid_forms_witness:
  "is_hmm (u ''7:10'') \<and> is_hmm (u ''07:10'')
   \<and> normalize_time (u ''7:10'') = Some (u ''07:10:00'')
   \<and> normalize_time (u ''07:10'') = Some (u ''07:10:00'')
   \<and> length (u ''07:10:00'') = 8
   \<and> hour_of (u ''7:10'') = hour_of (u ''07:10'')
   \<and> minute_of (u ''7:10'') = minute_of (u ''07:10'')"
proof -
  have a: "is_hmm (u ''7:10'')" "is_hmm (u ''07:10'')"
    by (simp_all add: chars)
  have b: "hhmm00 (u ''7:10'') = u ''07:10:00''" "hhmm00 (u ''07:10'') = u ''07:10:00''"
    by (simp_all add: hhmm00_def hour_of_def minute_of_def evals)
  note T = normalize_time_valid_forms [of "u ''7:10''" "u ''07:10''"]
  note T' = normalize_time_valid_forms [of "u ''07:10''" "u ''7:10''"]
  from T a have n: "normalize_time (u ''7:10'') = Some (hhmm00 (u ''7:10''))"
    "length (hhmm00 (u ''7:10'')) = 8" by blast+
  from T' a have n': "normalize_time (u ''07:10'') = Some (hhmm00 (u ''07:10''))" by blast
  from n n' b have eq: "normalize_time (u ''7:10'') = normalize_time (u ''07:10'')" by simp
  from T a eq have "hour_of (u ''7:10'') = hour_of (u ''07:10'')"
    "minute_of (u ''7:10'') = minute_of (u ''07:10'')" by blast+
  with a n n' b show ?thesis by simp
qed

section \<open>No range check of times\<close>

lemma time_9999: "normalize_time (u ''99:99'') = Some (u ''99:99:00'')"
  by (simp add: normalize_time_def hmm_match_def evals)

lemma out_of_range_row_header: "first_match header_class_match out_of_range_row = None"
  by (simp add: out_of_range_row_def header_class_match_def chars)

lemma out_of_range_row_time:
  "first_match time_search out_of_range_row = Some (u ''99:99-99:99'', u ''99:99'', u ''99:99'')"
  by (simp add: out_of_range_row_def time_at_def chars)

lemma scenario_out_of_range_row:
  assumes "weekday_cols s = find_weekday_columns weekday_row_polish"
    "current_class s = Some (u ''1AT'')" "plan s = []"
  shows "plan (process_row (u ''Plan'') 2 out_of_range_row s) = [out_of_range_lesson]"
proof -
  have h: "header_step (u ''Plan'') 2 out_of_range_row s = s"
    by (simp add: header_step_def out_of_range_row_header)
  have c: "strip (u ''Math'') = u ''Math''" "u ''Math'' \<noteq> []"
    "escape_sql (Some (u ''Math'')) = u ''Math''"
    by (simp_all add: escape_sql_def replace_chr_def strip_def chars)
  have a: "add_subjects (u ''1AT'') (u ''99:99:00'') (u ''99:99:00'') (u ''Plan'') 2
             out_of_range_row (find_weekday_columns weekday_row_polish) [] =
           [out_of_range_lesson]"
    unfolding weekday_row_polish_weekdays
    by (simp add: out_of_range_row_def c out_of_range_lesson_def Let_def)
  have w: "find_weekday_columns weekday_row_polish \<noteq> []"
    by (simp add: weekday_row_polish_weekdays)
  have t: "u ''99:99:00'' \<noteq> []" "u ''1AT'' \<noteq> []"
    by (simp_all add: u_def)
  show ?thesis
    by (simp add: process_row_def h assms w time_step_def out_of_range_row_time time_9999 a t)
qed

lemma out_of_range_insert:
  "insert_stmt 1 out_of_range_lesson =
     u ''INSERT INTO plan (id, klasa, dzien, godzina_start, godzina_koniec, przedmiot, sheet, sheet_row, sheet_col) ''
     @ u ''VALUES (1, '' @ [39] @ u ''1AT'' @ [39] @ u '', '' @ [39] @ u ''Poniedzia'' @ [322]
     @ u ''ek'' @ [39] @ u '', '' @ [39] @ u ''99:99:00'' @ [39] @ u '', '' @ [39]
     @ u ''99:99:00'' @ [39] @ u '', '' @ [39] @ u ''Math'' @ [39] @ u '', '' @ [39] @ u ''Plan''
     @ [39] @ u '', 3, 2);'' @ [10]"
  by (simp add: insert_stmt_def out_of_range_lesson_def escape_sql_def replace_chr_def
      strip_def chars str_nat_lt10)

text \<open>
  C10. \<open>normalize_time\<close> checks no range: every text of the form one or two digits,
  colon, two digits, with any white space around it, is accepted; \<open>"99:99"\<close> gives
  \<open>"99:99:00"\<close>. Such a value reaches the SQL text unchecked: a time row
  \<open>99:99-99:99\<close> yields an entry with start and end \<open>99:99:00\<close>, and \<open>write_sql\<close> writes
  both between quotes into the INSERT statement.
\<close>

theorem normalize_time_no_range_check:
  "(list_all is_space ws1 \<and> list_all is_space ws2 \<and> is_hmm s \<longrightarrow>
      normalize_time (ws1 @ s @ ws2) = Some (hhmm00 s))
   \<and> normalize_time (u ''99:99'') = Some (u ''99:99:00'')
   \<and> fst (parse_excel_to_plan
            (Opened [(u ''Plan'', Grid [header_row, weekday_row_polish, out_of_range_row])])) =
       [out_of_range_lesson]
   \<and> write_sql now [out_of_range_lesson] =
       sql_header now @
       [u ''INSERT INTO plan (id, klasa, dzien, godzina_start, godzina_koniec, przedmiot, sheet, sheet_row, sheet_col) ''
        @ u ''VALUES (1, '' @ [39] @ u ''1AT'' @ [39] @ u '', '' @ [39] @ u ''Poniedzia'' @ [322]
        @ u ''ek'' @ [39] @ u '', '' @ [39] @ u ''99:99:00'' @ [39] @ u '', '' @ [39]
        @ u ''99:99:00'' @ [39] @ u '', '' @ [39] @ u ''Math'' @ [39] @ u '', '' @ [39] @ u ''Plan''
        @ [39] @ u '', 3, 2);'' @ [10]]"
proof (intro conjI impI)
  assume a: "list_all is_space ws1 \<and> list_all is_space ws2 \<and> is_hmm s"
  then have e: "s \<noteq> []" "\<not> is_space (hd s)" "\<not> is_space (last s)"
    using is_hmm_ends [of s] by simp_all
  from a e have "strip (ws1 @ s @ ws2) = s" by (simp add: strip_padded)
  with a show "normalize_time (ws1 @ s @ ws2) = Some (hhmm00 s)"
    by (simp add: normalize_time_eq)
next
  show "normalize_time (u ''99:99'') = Some (u ''99:99:00'')" by (rule time_9999)
next
  let ?s2 = "process_row (u ''Plan'') 1 weekday_row_polish (after_header (u ''Plan''))"
  have "plan (process_row (u ''Plan'') 2 out_of_range_row ?s2) = [out_of_range_lesson]"
    using scenario_weekday_row_polish [of "u ''Plan''"]
    by (intro scenario_out_of_range_row) simp_all
  then show "fst (parse_excel_to_plan
            (Opened [(u ''Plan'', Grid [header_row, weekday_row_polish, out_of_range_row])])) =
       [out_of_range_lesson]"
    by (simp only: parse_one_sheet fst_conv scan_three_rows scenario_header_row
        scan_rows.simps(1))
next
  show "write_sql now [out_of_range_lesson] =
       sql_header now @
       [u ''INSERT INTO plan (id, klasa, dzien, godzina_start, godzina_koniec, przedmiot, sheet, sheet_row, sheet_col) ''
        @ u ''VALUES (1, '' @ [39] @ u ''1AT'' @ [39] @ u '', '' @ [39] @ u ''Poniedzia'' @ [322]
        @ u ''ek'' @ [39] @ u '', '' @ [39] @ u ''99:99:00'' @ [39] @ u '', '' @ [39]
        @ u ''99:99:00'' @ [39] @ u '', '' @ [39] @ u ''Math'' @ [39] @ u '', '' @ [39] @ u ''Plan''
        @ [39] @ u '', 3, 2);'' @ [10]]"
    by (simp only: write_sql_def write_rows.simps out_of_range_insert)
qed

theorem normalize_time_no_range_check_witness:
  "list_all is_space [32] \<and> list_all is_space [9, 10] \<and> is_hmm (u ''99:99'')
   \<and> normalize_time ([32] @ u ''99:99'' @ [9, 10]) = Some (u ''99:99:00'')"
proof -
  have a: "list_all is_space [32]" "list_all is_space [9, 10]" "is_hmm (u ''99:99'')"
    by (simp_all add: chars)
  have b: "hhmm00 (u ''99:99'') = u ''99:99:00''"
    by (simp add: hhmm00_def hour_of_def minute_of_def evals)
  from normalize_time_no_range_check [of "[32]" "[9, 10]" "u ''99:99''"] a
  have "normalize_time ([32] @ u ''99:99'' @ [9, 10]) = Some (hhmm00 (u ''99:99''))" by blast
  with a b show ?thesis by simp
qed

end
